theory Spec2Isabelle
  imports Main "HOL-Library.Char_ord" "HOL-Library.List_Lexorder"
begin

section \<open>Strings and paths\<close>

text \<open>
  A Python \<open>str\<close> is modelled as a \<open>string\<close> whose characters are the code points
  below 256.  The order on strings is the lexicographic order on code points, which is
  the order Python's \<open>sorted\<close> uses on \<open>str\<close>.
\<close>

abbreviation NL :: char where
  "NL \<equiv> CHR 0x0A"

definition is_space :: "char \<Rightarrow> bool" where
  \<comment> \<open>\<open>str.isspace\<close> on one character: TAB..CR, FS..US, space, NEL, NBSP.\<close>
  "is_space c = (of_char c \<in> {9, 10, 11, 12, 13, 28, 29, 30, 31, 32, 133, 160 :: nat})"

definition strip :: "string \<Rightarrow> string" where
  \<comment> \<open>\<open>line.strip()\<close>\<close>
  "strip s = rev (dropWhile is_space (rev (dropWhile is_space s)))"

definition lower_char :: "char \<Rightarrow> char" where
  "lower_char c =
     (let n = of_char c :: nat
      in if (65 \<le> n \<and> n \<le> 90) \<or> (192 \<le> n \<and> n \<le> 222 \<and> n \<noteq> 215)
         then char_of (n + 32) else c)"

definition lower :: "string \<Rightarrow> string" where
  \<comment> \<open>\<open>s.lower()\<close>\<close>
  "lower s = map lower_char s"

fun startswith :: "string \<Rightarrow> string \<Rightarrow> bool" where
  "startswith s [] = True"
| "startswith [] (p # ps) = False"
| "startswith (c # cs) (p # ps) = (c = p \<and> startswith cs ps)"

definition endswith :: "string \<Rightarrow> string \<Rightarrow> bool" where
  \<comment> \<open>\<open>s.endswith(suffix)\<close>\<close>
  "endswith s suf = startswith (rev s) (rev suf)"

fun contains :: "string \<Rightarrow> string \<Rightarrow> bool" where
  \<comment> \<open>\<open>needle in s\<close> on strings\<close>
  "contains [] needle = (needle = [])"
| "contains (c # cs) needle = (startswith (c # cs) needle \<or> contains cs needle)"

fun split_on :: "char \<Rightarrow> string \<Rightarrow> string list" where
  \<comment> \<open>\<open>s.split(sep)\<close> for a one-character separator\<close>
  "split_on sep [] = [[]]"
| "split_on sep (c # cs) =
     (if c = sep then [] # split_on sep cs
      else (case split_on sep cs of
              [] \<Rightarrow> [[c]]
            | w # ws \<Rightarrow> (c # w) # ws))"

fun rfind :: "char \<Rightarrow> string \<Rightarrow> nat option" where
  \<comment> \<open>\<open>s.rfind(c)\<close>, with \<open>None\<close> for Python's -1\<close>
  "rfind c [] = None"
| "rfind c (x # xs) =
     (case rfind c xs of
        Some i \<Rightarrow> Some (Suc i)
      | None \<Rightarrow> if x = c then Some 0 else None)"

definition path_name :: "string \<Rightarrow> string" where
  \<comment> \<open>\<open>PurePosixPath(s).name\<close>: the last component, empty components and
      \<open>.\<close> components dropped; empty when there is none.\<close>
  "path_name s =
     (case filter (\<lambda>p. p \<noteq> [] \<and> p \<noteq> ''.'') (split_on (CHR ''/'') s) of
        [] \<Rightarrow> []
      | p # ps \<Rightarrow> last (p # ps))"

definition name_stem :: "string \<Rightarrow> string" where
  \<comment> \<open>\<open>stem\<close> of a final component: cut at the last dot unless that dot is the
      first or the last character.\<close>
  "name_stem n =
     (case rfind (CHR ''.'') n of
        None \<Rightarrow> n
      | Some i \<Rightarrow> if 0 < i \<and> Suc i < length n then take i n else n)"

definition path_stem :: "string \<Rightarrow> string" where
  \<comment> \<open>\<open>Path(s).stem\<close>\<close>
  "path_stem s = name_stem (path_name s)"

definition read_lines :: "string list \<Rightarrow> string list" where
  \<comment> \<open>\<open>[line.strip() for line in f if line.strip()]\<close>: a text file is the list of
      its lines as the reader yields them.\<close>
  "read_lines raw = filter (\<lambda>l. l \<noteq> []) (map strip raw)"

definition write_lines :: "string list \<Rightarrow> string" where
  \<comment> \<open>the text produced by \<open>for line in ls: f.write(f"{line}\n")\<close>\<close>
  "write_lines ls = concat (map (\<lambda>l. l @ [NL]) ls)"

section \<open>Reorganizer: regrouping the split files\<close>

definition has_orange_marker :: "string \<Rightarrow> bool" where
  \<comment> \<open>the test of \<open>reorganize_splits\<close> on one line\<close>
  "has_orange_marker line =
     (contains line ''CREC_HLB'' \<or> contains line ''UF.Citrus_HLB'' \<or> contains line ''image ('')"

type_synonym category_lines = "(string \<times> string list) list"

fun dd_append :: "category_lines \<Rightarrow> string \<Rightarrow> string \<Rightarrow> category_lines" where
  \<comment> \<open>\<open>d[key].append(v)\<close> on a \<open>defaultdict(list)\<close> kept in insertion order\<close>
  "dd_append [] key v = [(key, [v])]"
| "dd_append ((k, vs) # d) key v =
     (if k = key then (k, vs @ [v]) # d else (k, vs) # dd_append d key v)"

fun group_lines :: "string list \<Rightarrow> category_lines \<Rightarrow> category_lines" where
  \<comment> \<open>the loop \<open>for line in lines\<close> of \<open>reorganize_splits\<close>\<close>
  "group_lines [] cl = cl"
| "group_lines (line # rest) cl =
     (if has_orange_marker line
      then group_lines rest (dd_append cl ''oranges'' (path_stem line))
      else group_lines rest (dd_append cl ''backgrounds'' (path_stem line)))"

type_synonym textdir = "string \<rightharpoonup> string"

fun write_category_splits ::
  "string list \<Rightarrow> category_lines \<Rightarrow> string \<Rightarrow> (string \<rightharpoonup> textdir) \<Rightarrow> (string \<rightharpoonup> textdir)" where
  \<comment> \<open>the loop over \<open>category_dirs.items()\<close>: the state maps a category name to the
      files of its \<open>sets/\<close> directory (\<open>None\<close>: the directory does not exist yet).\<close>
  "write_category_splits [] cl split_file sets = sets"
| "write_category_splits (cat # cats) cl split_file sets =
     (case map_of cl cat of
        None \<Rightarrow> write_category_splits cats cl split_file sets
      | Some ls \<Rightarrow>
          write_category_splits cats cl split_file
            (sets(cat \<mapsto> (case sets cat of None \<Rightarrow> Map.empty | Some d \<Rightarrow> d)
                            (split_file \<mapsto> write_lines ls))))"

fun reorganize_splits_loop ::
  "string list \<Rightarrow> (string \<rightharpoonup> string list) \<Rightarrow> string list \<Rightarrow> (string \<rightharpoonup> textdir) \<Rightarrow> (string \<rightharpoonup> textdir)" where
  "reorganize_splits_loop [] all_dir cats sets = sets"
| "reorganize_splits_loop (split_file # rest) all_dir cats sets =
     (case all_dir split_file of
        None \<Rightarrow> reorganize_splits_loop rest all_dir cats sets
      | Some raw \<Rightarrow>
          reorganize_splits_loop rest all_dir cats
            (write_category_splits cats (group_lines (read_lines raw) []) split_file sets))"

definition reorganize_splits ::
  "(string \<rightharpoonup> string list) \<Rightarrow> string list \<Rightarrow> (string \<rightharpoonup> textdir) \<Rightarrow> (string \<rightharpoonup> textdir)" where
  \<comment> \<open>\<open>all_dir\<close> maps a file name of the shared directory to its lines; \<open>cats\<close> are the
      keys of \<open>category_dirs\<close> in order.\<close>
  "reorganize_splits all_dir cats sets =
     reorganize_splits_loop [''train.txt'', ''val.txt'', ''test.txt''] all_dir cats sets"


section \<open>Split Fixer\<close>

text \<open>
  The filename mapping is a Python \<open>dict\<close>: an association list in insertion order whose
  keys are distinct.  \<open>key in mapping\<close> and \<open>mapping[key]\<close> are \<open>map_of\<close>;
  \<open>mapping.items()\<close> is the list itself.
\<close>

type_synonym mapping = "(string \<times> string) list"

fun lookup_keys :: "mapping \<Rightarrow> string list \<Rightarrow> string option" where
  \<comment> \<open>\<open>for key in [...]: if key in mapping: mapped_lines.append(mapping[key]); break\<close>\<close>
  "lookup_keys m [] = None"
| "lookup_keys m (key # keys) =
     (case map_of m key of
        Some actual \<Rightarrow> Some actual
      | None \<Rightarrow> lookup_keys m keys)"

definition key_stem :: "string \<Rightarrow> string" where
  \<comment> \<open>\<open>Path(orig).stem if '.' in orig else orig\<close>\<close>
  "key_stem orig = (if CHR ''.'' \<in> set orig then path_stem orig else orig)"

fun scan_items :: "mapping \<Rightarrow> string \<Rightarrow> string \<Rightarrow> string option" where
  \<comment> \<open>\<open>for orig, actual in mapping.items(): ... break\<close>\<close>
  "scan_items [] line_stem line_stem_lower = None"
| "scan_items ((orig, actual) # m) line_stem line_stem_lower =
     (if key_stem orig = line_stem \<or> key_stem orig = line_stem_lower then Some actual
      else scan_items m line_stem line_stem_lower)"

definition resolve_line :: "mapping \<Rightarrow> string \<Rightarrow> string option" where
  \<comment> \<open>the body of the loop over \<open>original_lines\<close>: \<open>Some\<close> the stem appended to
      \<open>mapped_lines\<close>, \<open>None\<close> when \<open>found\<close> stays false.\<close>
  "resolve_line m line =
     (let line_stem = path_stem line;
          line_lower = lower line;
          line_stem_lower = lower line_stem
      in case lookup_keys m [line, line_stem, line_lower, line_stem_lower] of
           Some actual \<Rightarrow> Some actual
         | None \<Rightarrow> scan_items m line_stem line_stem_lower)"

fun map_lines ::
  "mapping \<Rightarrow> string list \<Rightarrow> string list \<times> string list \<Rightarrow> string list \<times> string list" where
  \<comment> \<open>the loop over \<open>original_lines\<close>; the state is \<open>(mapped_lines, unmapped)\<close>\<close>
  "map_lines m [] (mapped, unmapped) = (mapped, unmapped)"
| "map_lines m (line # rest) (mapped, unmapped) =
     (case resolve_line m line of
        Some actual \<Rightarrow> map_lines m rest (mapped @ [actual], unmapped)
      | None \<Rightarrow> map_lines m rest (mapped, unmapped @ [line]))"

record fixer_state =
  sets_dir :: textdir
  reported :: "(string \<times> nat \<times> string list) list"

definition split_output :: "mapping \<Rightarrow> string list \<Rightarrow> string list" where
  \<comment> \<open>\<open>sorted(set(mapped_lines))\<close> for a split file with the lines \<open>raw\<close>\<close>
  "split_output m raw = sort (remdups (fst (map_lines m (read_lines raw) ([], []))))"

definition fix_split_file :: "mapping \<Rightarrow> string \<Rightarrow> string list \<Rightarrow> fixer_state \<Rightarrow> fixer_state" where
  \<comment> \<open>one existing split file: map its lines, report the number of unmapped lines and the
      first ten of them, and write the sorted set of mapped stems to \<open>sets/<split_file>\<close>.\<close>
  "fix_split_file m split_file raw st =
     (let unmapped = snd (map_lines m (read_lines raw) ([], []));
          rep = (if unmapped \<noteq> [] then [(split_file, length unmapped, take 10 unmapped)] else [])
      in st\<lparr>sets_dir := (sets_dir st)(split_file \<mapsto> write_lines (split_output m raw)),
             reported := reported st @ rep\<rparr>)"

fun fix_splits_loop ::
  "string list \<Rightarrow> mapping \<Rightarrow> (string \<rightharpoonup> string list) \<Rightarrow> fixer_state \<Rightarrow> fixer_state" where
  "fix_splits_loop [] m all_dir st = st"
| "fix_splits_loop (split_file # rest) m all_dir st =
     (case all_dir split_file of
        None \<Rightarrow> fix_splits_loop rest m all_dir st
      | Some raw \<Rightarrow> fix_splits_loop rest m all_dir (fix_split_file m split_file raw st))"

definition fix_splits :: "mapping \<Rightarrow> (string \<rightharpoonup> string list) \<Rightarrow> textdir \<Rightarrow> fixer_state" where
  \<comment> \<open>\<open>fix_splits\<close> after the mapping is built: \<open>all_dir\<close> maps a file name of the shared
      directory to its lines, \<open>sets\<close> is the category's \<open>sets/\<close> directory before the run.\<close>
  "fix_splits m all_dir sets =
     fix_splits_loop [''train.txt'', ''val.txt'', ''test.txt''] m all_dir
       \<lparr>sets_dir = sets, reported = []\<rparr>"


section \<open>The Python library the scripts call\<close>

text \<open>
  \<open>json.load\<close>, \<open>str\<close> on a loaded value (as an f-string applies it), \<open>float\<close> on a
  string, the comparison of a number with \<open>0\<close> and the product of two floats belong to
  Python, not to this repository: they are parameters of the model.  The type \<open>'a\<close> stands
  for Python's numbers.  A failing call is \<open>None\<close>: \<open>json.load\<close> raising on malformed
  text, \<open>float\<close> raising \<open>ValueError\<close>.
\<close>

datatype 'a json =
    JNull
  | JBool bool
  | JNum 'a
  | JStr string
  | JArr "'a json list"
  | JObj "(string \<times> 'a json) list"

record 'a pylib =
  json_load :: "string \<Rightarrow> 'a json option"
  py_str :: "'a json \<Rightarrow> string"
  py_float :: "string \<Rightarrow> 'a option"
  num_is_zero :: "'a \<Rightarrow> bool"
  fmul :: "'a \<Rightarrow> 'a \<Rightarrow> 'a"

datatype py_error =
    KeyError | TypeError | IndexError | AttributeError | ValueError | CsvError | ImageError

subsection \<open>Decimal numerals\<close>

definition digit_char :: "nat \<Rightarrow> char" where
  "digit_char d = char_of (48 + d)"

fun show_nat :: "nat \<Rightarrow> string" where
  \<comment> \<open>\<open>str(n)\<close> for a Python \<open>int\<close> that is not negative\<close>
  "show_nat n = (if n < 10 then [digit_char n] else show_nat (n div 10) @ [digit_char (n mod 10)])"

declare show_nat.simps [simp del]

subsection \<open>The csv module\<close>

text \<open>
  \<open>csv.reader\<close> with the default dialect (delimiter \<open>,\<close>, quote character \<open>"\<close>,
  doubled quotes, not strict), on a file opened with \<open>newline=""\<close>: the file is read line
  by line, a line ending after \<open>\n\<close>, \<open>\r\n\<close> or \<open>\r\<close> and keeping its ending.  After
  the characters of a line the parser is given the end-of-line mark, here \<open>None\<close>.
\<close>

abbreviation CR :: char where
  "CR \<equiv> CHR 0x0D"

fun lines_keepends :: "string \<Rightarrow> string \<Rightarrow> string list" where
  \<comment> \<open>the lines of a text, \<open>cur\<close> being the part of the current line already read\<close>
  "lines_keepends [] cur = (if cur = [] then [] else [cur])"
| "lines_keepends (c # cs) cur =
     (if c = NL then (cur @ [NL]) # lines_keepends cs []
      else if c = CR then
        (case cs of
           [] \<Rightarrow> [cur @ [CR]]
         | d # ds \<Rightarrow> if d = NL then (cur @ [CR, NL]) # lines_keepends ds []
                    else (cur @ [CR]) # lines_keepends (d # ds) [])
      else lines_keepends cs (cur @ [c]))"

datatype csv_state =
  START_RECORD | START_FIELD | IN_FIELD | IN_QUOTED_FIELD | QUOTE_IN_QUOTED_FIELD | EAT_CRNL

record parser =
  state :: csv_state
  field :: string
  row_fields :: "string list"

definition field_limit :: nat where
  "field_limit = 131072"

definition parse_reset :: parser where
  "parse_reset = \<lparr>state = START_RECORD, field = [], row_fields = []\<rparr>"

definition parse_save_field :: "parser \<Rightarrow> csv_state \<Rightarrow> py_error + parser" where
  "parse_save_field p st = Inr (p\<lparr>state := st, row_fields := row_fields p @ [field p], field := []\<rparr>)"

definition parse_add_char :: "parser \<Rightarrow> char \<Rightarrow> csv_state \<Rightarrow> py_error + parser" where
  "parse_add_char p c st =
     (if length (field p) \<ge> field_limit then Inl CsvError
      else Inr (p\<lparr>state := st, field := field p @ [c]\<rparr>))"

definition is_eol :: "char option \<Rightarrow> bool" where
  "is_eol c = (c = None \<or> c = Some NL \<or> c = Some CR)"

definition after_eol :: "char option \<Rightarrow> csv_state" where
  "after_eol c = (if c = None then START_RECORD else EAT_CRNL)"

definition start_field :: "parser \<Rightarrow> char option \<Rightarrow> py_error + parser" where
  "start_field p c =
     (if is_eol c then parse_save_field p (after_eol c)
      else if c = Some (CHR 0x22) then Inr (p\<lparr>state := IN_QUOTED_FIELD\<rparr>)
      else if c = Some (CHR '','') then parse_save_field p START_FIELD
      else parse_add_char p (the c) IN_FIELD)"

definition parse_process_char :: "parser \<Rightarrow> char option \<Rightarrow> py_error + parser" where
  "parse_process_char p c =
     (case state p of
        START_RECORD \<Rightarrow>
          (if c = None then Inr p
           else if c = Some NL \<or> c = Some CR then Inr (p\<lparr>state := EAT_CRNL\<rparr>)
           else start_field p c)
      | START_FIELD \<Rightarrow> start_field p c
      | IN_FIELD \<Rightarrow>
          (if is_eol c then parse_save_field p (after_eol c)
           else if c = Some (CHR '','') then parse_save_field p START_FIELD
           else parse_add_char p (the c) IN_FIELD)
      | IN_QUOTED_FIELD \<Rightarrow>
          (if c = None then Inr p
           else if c = Some (CHR 0x22) then Inr (p\<lparr>state := QUOTE_IN_QUOTED_FIELD\<rparr>)
           else parse_add_char p (the c) IN_QUOTED_FIELD)
      | QUOTE_IN_QUOTED_FIELD \<Rightarrow>
          (if c = Some (CHR 0x22) then parse_add_char p (CHR 0x22) IN_QUOTED_FIELD
           else if c = Some (CHR '','') then parse_save_field p START_FIELD
           else if is_eol c then parse_save_field p (after_eol c)
           else parse_add_char p (the c) IN_FIELD)
      | EAT_CRNL \<Rightarrow>
          (if c = Some NL \<or> c = Some CR then Inr p
           else if c = None then Inr (p\<lparr>state := START_RECORD\<rparr>)
           else Inl CsvError))"

fun process_chars :: "parser \<Rightarrow> string \<Rightarrow> py_error + parser" where
  "process_chars p [] = Inr p"
| "process_chars p (c # cs) =
     (case parse_process_char p (Some c) of
        Inl e \<Rightarrow> Inl e
      | Inr p' \<Rightarrow> process_chars p' cs)"

definition process_line :: "parser \<Rightarrow> string \<Rightarrow> py_error + parser" where
  "process_line p l =
     (case process_chars p l of
        Inl e \<Rightarrow> Inl e
      | Inr p' \<Rightarrow> parse_process_char p' None)"

fun read_rows :: "string list \<Rightarrow> parser \<Rightarrow> string list list \<times> py_error option" where
  \<comment> \<open>the rows the reader yields, in order, and the error that ends the iteration, if
      any.  A record is complete when the parser is back in \<open>START_RECORD\<close> at the end of
      a line; at the end of the file an open quoted field is closed.\<close>
  "read_rows [] p =
     (if field p \<noteq> [] \<or> state p = IN_QUOTED_FIELD then ([row_fields p @ [field p]], None)
      else ([], None))"
| "read_rows (l # ls) p =
     (case process_line p l of
        Inl e \<Rightarrow> ([], Some e)
      | Inr p' \<Rightarrow>
          if state p' = START_RECORD
          then (let (rows, err) = read_rows ls parse_reset in (row_fields p' # rows, err))
          else read_rows ls p')"

definition csv_reader :: "string \<Rightarrow> string list list \<times> py_error option" where
  "csv_reader text = read_rows (lines_keepends text []) parse_reset"

text \<open>
  \<open>csv.DictReader\<close>: the first row gives the field names, empty rows are skipped, a row
  is zipped with the field names; the fields of a row longer than the header are stored
  under the key \<open>None\<close> (\<open>restkey\<close>), the missing fields of a shorter row are \<open>None\<close>
  (\<open>restval\<close>).  A Python \<open>dict\<close> is an association list in insertion order.
\<close>

fun dict_set :: "('k \<times> 'v) list \<Rightarrow> 'k \<Rightarrow> 'v \<Rightarrow> ('k \<times> 'v) list" where
  \<comment> \<open>\<open>d[k] = v\<close>\<close>
  "dict_set [] k v = [(k, v)]"
| "dict_set ((k', v') # d) k v = (if k' = k then (k', v) # d else (k', v') # dict_set d k v)"

definition dict_of :: "('k \<times> 'v) list \<Rightarrow> ('k \<times> 'v) list" where
  \<comment> \<open>\<open>dict(pairs)\<close>, also a dict comprehension over the pairs\<close>
  "dict_of kvs = fold (\<lambda>(k, v) d. dict_set d k v) kvs []"

record raw_row =
  row_named :: "(string \<times> string option) list"
  row_rest :: "string list option"

definition dict_row :: "string list \<Rightarrow> string list \<Rightarrow> raw_row" where
  \<comment> \<open>one row of the \<open>DictReader\<close>: \<open>row_named\<close> holds the entries under the field names
      (\<open>None\<close> is \<open>restval\<close>), \<open>row_rest\<close> the entry under the key \<open>None\<close>, which is the
      last one of the dict when it is there.\<close>
  "dict_row fieldnames row =
     (let d = dict_of (zip fieldnames (map Some row));
          lf = length fieldnames;
          lr = length row
      in if lf < lr then \<lparr>row_named = d, row_rest = Some (drop lf row)\<rparr>
         else if lf > lr
         then \<lparr>row_named = fold (\<lambda>key d. dict_set d key None) (drop lr fieldnames) d, row_rest = None\<rparr>
         else \<lparr>row_named = d, row_rest = None\<rparr>)"

section \<open>Converter: parsing a per-image CSV\<close>

record 'a CsvBox =
  box_x :: 'a
  box_y :: 'a
  box_width :: 'a
  box_height :: 'a

definition lower_row :: "raw_row \<Rightarrow> py_error + (string \<times> string option) list" where
  \<comment> \<open>\<open>{k.lower(): v for k, v in raw_row.items()}\<close>; \<open>None.lower()\<close> raises\<close>
  "lower_row r =
     (case row_rest r of
        Some surplus \<Rightarrow> Inl AttributeError
      | None \<Rightarrow> Inr (dict_of (map (\<lambda>(k, v). (lower k, v)) (row_named r))))"

fun get :: "'a pylib \<Rightarrow> (string \<times> string option) list \<Rightarrow> string list \<Rightarrow> 'a option" where
  \<comment> \<open>the local function \<open>get(row, *keys)\<close>\<close>
  "get L row [] = None"
| "get L row (key # keys) =
     (case map_of row key of
        Some (Some v) \<Rightarrow>
          (if v \<noteq> [] then
             (case py_float L v of
                Some r \<Rightarrow> Some r
              | None \<Rightarrow> get L row keys)
           else get L row keys)
      | _ \<Rightarrow> get L row keys)"

definition row_box :: "'a pylib \<Rightarrow> (string \<times> string option) list \<Rightarrow> 'a CsvBox option" where
  \<comment> \<open>the body of the loop over the rows, after the keys are lowered: \<open>Some\<close> the box
      appended, \<open>None\<close> when the row is skipped.\<close>
  "row_box L row =
     (let vx = get L row [''x'', ''xc'', ''x_center''];
          vy = get L row [''y'', ''yc'', ''y_center''];
          vw = get L row [''w'', ''width'', ''dx''];
          vh = get L row [''h'', ''height'', ''dy'']
      in if vx = None \<or> vy = None then None
         else if vw \<noteq> None \<and> vh \<noteq> None
              then Some \<lparr>box_x = the vx, box_y = the vy, box_width = the vw, box_height = the vh\<rparr>
              else None)"

fun parse_rows ::
  "'a pylib \<Rightarrow> string list \<Rightarrow> string list list \<Rightarrow> py_error option \<Rightarrow> py_error + 'a CsvBox list" where
  \<comment> \<open>\<open>for raw_row in reader\<close>: the rows left to read and the error that ends them\<close>
  "parse_rows L fieldnames [] err = (case err of None \<Rightarrow> Inr [] | Some e \<Rightarrow> Inl e)"
| "parse_rows L fieldnames (r # rs) err =
     (if r = [] then parse_rows L fieldnames rs err
      else (case lower_row (dict_row fieldnames r) of
              Inl e \<Rightarrow> Inl e
            | Inr row \<Rightarrow>
                (case parse_rows L fieldnames rs err of
                   Inl e \<Rightarrow> Inl e
                 | Inr boxes \<Rightarrow>
                     (case row_box L row of
                        None \<Rightarrow> Inr boxes
                      | Some b \<Rightarrow> Inr (b # boxes)))))"

definition parse_csv_boxes :: "'a pylib \<Rightarrow> string option \<Rightarrow> py_error + 'a CsvBox list" where
  \<comment> \<open>\<open>_parse_csv_boxes\<close>; the argument is the text of the file, \<open>None\<close> when the file
      does not exist.\<close>
  "parse_csv_boxes L csv =
     (case csv of
        None \<Rightarrow> Inr []
      | Some text \<Rightarrow>
          (case csv_reader text of
             ([], None) \<Rightarrow> Inr []
           | ([], Some e) \<Rightarrow> Inl e
           | (fieldnames # rows, err) \<Rightarrow> parse_rows L fieldnames rows err))"

section \<open>Reorganizer: from the annotation JSON to the CSV\<close>

definition csv_header :: string where
  "csv_header = ''#item,x,y,width,height,label'' @ [NL]"

definition json_get :: "'a json \<Rightarrow> string \<Rightarrow> py_error + 'a json" where
  \<comment> \<open>\<open>v[key]\<close> for a string key: only a dict has string keys\<close>
  "json_get v key =
     (case v of
        JObj kvs \<Rightarrow> (case map_of kvs key of None \<Rightarrow> Inl KeyError | Some r \<Rightarrow> Inr r)
      | _ \<Rightarrow> Inl TypeError)"

definition json_index :: "'a json \<Rightarrow> nat \<Rightarrow> py_error + 'a json" where
  \<comment> \<open>\<open>v[i]\<close> for an index \<open>i\<close> that is not negative\<close>
  "json_index v i =
     (case v of
        JArr vs \<Rightarrow> if i < length vs then Inr (vs ! i) else Inl IndexError
      | JStr cs \<Rightarrow> if i < length cs then Inr (JStr [cs ! i]) else Inl IndexError
      | JObj kvs \<Rightarrow> Inl KeyError
      | _ \<Rightarrow> Inl TypeError)"

definition truthy :: "'a pylib \<Rightarrow> 'a json \<Rightarrow> bool" where
  \<comment> \<open>the truth value of a loaded value, as \<open>if not annotations\<close> tests it\<close>
  "truthy L v =
     (case v of
        JNull \<Rightarrow> False
      | JBool b \<Rightarrow> b
      | JNum n \<Rightarrow> \<not> num_is_zero L n
      | JStr cs \<Rightarrow> cs \<noteq> []
      | JArr vs \<Rightarrow> vs \<noteq> []
      | JObj kvs \<Rightarrow> kvs \<noteq> [])"

definition differs_from_zero :: "'a pylib \<Rightarrow> 'a json \<Rightarrow> bool" where
  \<comment> \<open>\<open>category_id != 0\<close>; \<open>False\<close> equals \<open>0\<close> in Python\<close>
  "differs_from_zero L v =
     (case v of
        JNum n \<Rightarrow> \<not> num_is_zero L n
      | JBool b \<Rightarrow> b
      | _ \<Rightarrow> True)"

definition iter_items :: "'a json \<Rightarrow> py_error + 'a json list" where
  \<comment> \<open>the items \<open>enumerate(annotations)\<close> runs over: the elements of a list, the
      characters of a string, the keys of a dict; nothing else is iterable.\<close>
  "iter_items v =
     (case v of
        JArr vs \<Rightarrow> Inr vs
      | JStr cs \<Rightarrow> Inr (map (\<lambda>c. JStr [c]) cs)
      | JObj kvs \<Rightarrow> Inr (map (\<lambda>(k, r). JStr k) kvs)
      | _ \<Rightarrow> Inl TypeError)"

definition ann_row :: "'a pylib \<Rightarrow> nat \<Rightarrow> 'a json \<Rightarrow> py_error + string" where
  \<comment> \<open>the body of the loop of \<open>json_to_csv\<close>: the line written for the annotation
      \<open>ann\<close> at position \<open>idx\<close>, or the exception raised before anything is written.\<close>
  "ann_row L idx ann =
     (case json_get ann ''bbox'' of Inl e \<Rightarrow> Inl e | Inr bbox \<Rightarrow>
      case json_get ann ''category_id'' of Inl e \<Rightarrow> Inl e | Inr category_id \<Rightarrow>
      let label = (if differs_from_zero L category_id then ''1'' else ''0'') in
      case json_index bbox 0 of Inl e \<Rightarrow> Inl e | Inr b0 \<Rightarrow>
      case json_index bbox 1 of Inl e \<Rightarrow> Inl e | Inr b1 \<Rightarrow>
      case json_index bbox 2 of Inl e \<Rightarrow> Inl e | Inr b2 \<Rightarrow>
      case json_index bbox 3 of Inl e \<Rightarrow> Inl e | Inr b3 \<Rightarrow>
        Inr (show_nat idx @ '','' @ py_str L b0 @ '','' @ py_str L b1 @ '','' @ py_str L b2
               @ '','' @ py_str L b3 @ '','' @ label @ [NL]))"

fun write_rows :: "'a pylib \<Rightarrow> nat \<Rightarrow> 'a json list \<Rightarrow> string \<Rightarrow> string \<times> py_error option" where
  \<comment> \<open>the loop over \<open>enumerate(annotations)\<close>: the text of the file so far, and the
      exception that stops the loop, if any.\<close>
  "write_rows L idx [] text = (text, None)"
| "write_rows L idx (ann # anns) text =
     (case ann_row L idx ann of
        Inl e \<Rightarrow> (text, Some e)
      | Inr line \<Rightarrow> write_rows L (Suc idx) anns (text @ line))"

definition json_to_csv :: "'a pylib \<Rightarrow> 'a json \<Rightarrow> string option \<times> py_error option" where
  \<comment> \<open>\<open>json_to_csv\<close>: the text left in the CSV file (\<open>None\<close> when the file was never
      opened) and the exception that leaves the function, if any.\<close>
  "json_to_csv L json_data =
     (case json_data of
        JObj kvs \<Rightarrow>
          (let annotations = (case map_of kvs ''annotations'' of None \<Rightarrow> JArr [] | Some v \<Rightarrow> v)
           in if \<not> truthy L annotations then (Some csv_header, None)
              else (case iter_items annotations of
                      Inl e \<Rightarrow> (Some csv_header, Some e)
                    | Inr anns \<Rightarrow>
                        (let (text, err) = write_rows L 0 anns csv_header in (Some text, err))))
      | _ \<Rightarrow> (None, Some AttributeError))"

record target_dirs =
  images_dir :: textdir
  json_dir :: textdir
  csv_dir :: textdir
  warnings :: "string list"

definition process_image ::
  "'a pylib \<Rightarrow> (string \<times> string) list \<Rightarrow> string \<times> string \<Rightarrow> target_dirs \<Rightarrow> target_dirs" where
  \<comment> \<open>the body of the loop of \<open>process_directory\<close> for the image file \<open>name\<close> with the
      bytes \<open>img\<close>; \<open>src\<close> lists the files of the source directory with their contents,
      and a warning is the name of the JSON file it is printed for.\<close>
  "process_image L src file t =
     (let (name, img) = file;
          stem = name_stem name;
          json_file = (if map_of src (stem @ ''.json'') \<noteq> None then stem @ ''.json''
                       else name @ ''.json'');
          t1 = t\<lparr>images_dir := (images_dir t)(name \<mapsto> img)\<rparr>
      in case map_of src json_file of
           Some content \<Rightarrow>
             (let t2 = t1\<lparr>json_dir := (json_dir t1)(stem @ ''.json'' \<mapsto> content)\<rparr>
              in case json_load L content of
                   None \<Rightarrow> t2\<lparr>warnings := warnings t2 @ [json_file]\<rparr>
                 | Some json_data \<Rightarrow>
                     (let (written, err) = json_to_csv L json_data;
                          t3 = (case written of
                                  None \<Rightarrow> t2
                                | Some text \<Rightarrow> t2\<lparr>csv_dir := (csv_dir t2)(stem @ ''.csv'' \<mapsto> text)\<rparr>)
                      in case err of
                           None \<Rightarrow> t3
                         | Some e \<Rightarrow> t3\<lparr>warnings := warnings t3 @ [json_file]\<rparr>))
         | None \<Rightarrow> t1\<lparr>csv_dir := (csv_dir t1)(stem @ ''.csv'' \<mapsto> csv_header)\<rparr>)"

definition glob_ext :: "(string \<times> 'c) list \<Rightarrow> string \<Rightarrow> (string \<times> 'c) list" where
  \<comment> \<open>\<open>dir.glob("*" + ext)\<close> for an extension without wildcard characters: the entries
      whose name ends with it, matched case-sensitively.\<close>
  "glob_ext entries ext = filter (\<lambda>(name, c). endswith name ext) entries"

definition process_directory ::
  "'a pylib \<Rightarrow> (string \<times> string) list \<Rightarrow> string \<Rightarrow> target_dirs \<Rightarrow> target_dirs" where
  "process_directory L src image_ext t =
     (let image_files = glob_ext src image_ext @ glob_ext src (lower image_ext)
      in fold (process_image L src) image_files t)"

definition empty_target :: target_dirs where
  "empty_target = \<lparr>images_dir = map_of [], json_dir = map_of [], csv_dir = map_of [], warnings = []\<rparr>"

section \<open>A library instance for evaluation\<close>

text \<open>
  The theorems below hold for every library \<open>L\<close>.  To evaluate the model on concrete
  inputs, \<open>int_lib\<close> instantiates the library with the integers as numbers, written and
  read in decimal; its \<open>json.load\<close> knows the text of the empty object and rejects any
  other text.
\<close>

definition digit_val :: "char \<Rightarrow> nat option" where
  "digit_val c =
     (let n = of_char c :: nat in if 48 \<le> n \<and> n \<le> 57 then Some (n - 48) else None)"

fun parse_nat :: "string \<Rightarrow> nat \<Rightarrow> nat option" where
  "parse_nat [] acc = Some acc"
| "parse_nat (c # cs) acc =
     (case digit_val c of
        None \<Rightarrow> None
      | Some d \<Rightarrow> parse_nat cs (10 * acc + d))"

definition parse_int :: "string \<Rightarrow> int option" where
  "parse_int s =
     (case s of
        [] \<Rightarrow> None
      | c # cs \<Rightarrow>
          if c = CHR ''-''
          then (if cs = [] then None else map_option (\<lambda>n. - int n) (parse_nat cs 0))
          else map_option int (parse_nat s 0))"

definition show_int :: "int \<Rightarrow> string" where
  "show_int i = (if i < 0 then CHR ''-'' # show_nat (nat (- i)) else show_nat (nat i))"

definition int_lib :: "int pylib" where
  "int_lib =
     \<lparr>json_load = (\<lambda>s. if s = ''{}'' then Some (JObj []) else None),
      py_str = (\<lambda>v. case v of JNum n \<Rightarrow> show_int n | _ \<Rightarrow> ''None''),
      py_float = parse_int,
      num_is_zero = (\<lambda>n. n = 0),
      fmul = (\<lambda>a b. a * b)\<rparr>"

section \<open>Converter: one category and one split\<close>

record image =
  img_id :: int
  file_name :: string
  img_width :: nat
  img_height :: nat

record 'a annotation =
  ann_id :: int
  image_id :: int
  category_id :: int
  bbox :: "'a list"
  area :: 'a
  iscrowd :: int

record category =
  cat_id :: int
  cat_name :: string
  supercategory :: string

text \<open>
  What the Converter sees of a category directory: the names listed in \<open>images/\<close>;
  whether \<open>images/<name>\<close> exists; the pixel size \<open>_image_size\<close> returns for it
  (\<open>None\<close> when the image library raises); its path relative to the dataset root as
  \<open>relative_to\<close> gives it (\<open>None\<close> when that raises); the text of \<open>csv/<name>\<close> and
  the lines of \<open>sets/<name>\<close>, \<open>None\<close> when the file does not exist.
\<close>

record cat_fs =
  fs_images :: "string list"
  fs_exists :: "string \<Rightarrow> bool"
  fs_image_size :: "string \<Rightarrow> (nat \<times> nat) option"
  fs_rel_name :: "string \<Rightarrow> string option"
  fs_csv :: "string \<Rightarrow> string option"
  fs_split :: "string \<Rightarrow> string list option"

definition read_split_list :: "string list option \<Rightarrow> string list" where
  \<comment> \<open>\<open>_read_split_list\<close>: no file gives no names; else the stripped lines that are
      not empty\<close>
  "read_split_list f =
     (case f of
        None \<Rightarrow> []
      | Some raw \<Rightarrow> filter (\<lambda>line. line \<noteq> []) (map strip raw))"

definition glob_names :: "string list \<Rightarrow> string \<Rightarrow> string list" where
  \<comment> \<open>\<open>images_dir.glob("*" + ext)\<close>: the listed names that end with \<open>ext\<close>\<close>
  "glob_names names ext = filter (\<lambda>name. endswith name ext) names"

definition image_stems :: "cat_fs \<Rightarrow> string \<Rightarrow> string list" where
  \<comment> \<open>the elements of the set \<open>image_stems\<close>, in some order and possibly repeated\<close>
  "image_stems fs split =
     (let stems = read_split_list (fs_split fs (split @ ''.txt''))
      in if stems = []
         then map name_stem (glob_names (fs_images fs) ''.jpg'')
              @ map name_stem (glob_names (fs_images fs) ''.JPG'')
              @ map name_stem (glob_names (fs_images fs) ''.png'')
         else stems)"

definition singular :: "string \<Rightarrow> string" where
  \<comment> \<open>\<open>name[:-1] if name.endswith("s") else name\<close>\<close>
  "singular category_name =
     (if endswith category_name ''s'' then butlast category_name else category_name)"

definition find_image :: "cat_fs \<Rightarrow> string \<Rightarrow> string option" where
  \<comment> \<open>the file name tried first that exists, \<open>None\<close> for \<open>continue\<close>\<close>
  "find_image fs stem =
     (if fs_exists fs (stem @ ''.jpg'') then Some (stem @ ''.jpg'')
      else if fs_exists fs (stem @ ''.JPG'') then Some (stem @ ''.JPG'')
      else if fs_exists fs (stem @ ''.png'') then Some (stem @ ''.png'')
      else None)"

definition make_ann :: "'a pylib \<Rightarrow> int \<Rightarrow> int \<Rightarrow> 'a CsvBox \<Rightarrow> 'a annotation" where
  "make_ann L ann_id_counter image_id_counter box =
     \<lparr>ann_id = ann_id_counter, image_id = image_id_counter, category_id = 1,
      bbox = [box_x box, box_y box, box_width box, box_height box],
      area = fmul L (box_width box) (box_height box), iscrowd = 0\<rparr>"

fun number_boxes :: "'a pylib \<Rightarrow> 'a CsvBox list \<Rightarrow> int \<Rightarrow> int \<Rightarrow> 'a annotation list" where
  \<comment> \<open>the loop over the boxes of one image\<close>
  "number_boxes L [] ann_id_counter image_id_counter = []"
| "number_boxes L (box # boxes) ann_id_counter image_id_counter =
     make_ann L ann_id_counter image_id_counter box
     # number_boxes L boxes (ann_id_counter + 1) image_id_counter"

fun collect_loop ::
  "'a pylib \<Rightarrow> cat_fs \<Rightarrow> string list \<Rightarrow> image list \<times> 'a annotation list \<times> int \<times> int
   \<Rightarrow> py_error + image list \<times> 'a annotation list \<times> int \<times> int" where
  \<comment> \<open>\<open>for stem in sorted(image_stems)\<close>; the state is
      \<open>(images, anns, image_id_counter, ann_id_counter)\<close>\<close>
  "collect_loop L fs [] st = Inr st"
| "collect_loop L fs (stem # stems) (images, anns, image_id_counter, ann_id_counter) =
     (case find_image fs stem of
        None \<Rightarrow> collect_loop L fs stems (images, anns, image_id_counter, ann_id_counter)
      | Some img_path \<Rightarrow>
          (case fs_image_size fs img_path of
             None \<Rightarrow> Inl ImageError
           | Some (w, h) \<Rightarrow>
               (case fs_rel_name fs img_path of
                  None \<Rightarrow> Inl ValueError
                | Some rel \<Rightarrow>
                    (case parse_csv_boxes L (fs_csv fs (stem @ ''.csv'')) of
                       Inl e \<Rightarrow> Inl e
                     | Inr boxes \<Rightarrow>
                         collect_loop L fs stems
                           (images @ [\<lparr>img_id = image_id_counter, file_name = rel,
                                       img_width = w, img_height = h\<rparr>],
                            anns @ number_boxes L boxes ann_id_counter image_id_counter,
                            image_id_counter + 1,
                            ann_id_counter + int (length boxes))))))"

definition collect_annotations_for_split ::
  "'a pylib \<Rightarrow> cat_fs \<Rightarrow> string \<Rightarrow> string
   \<Rightarrow> py_error + image list \<times> 'a annotation list \<times> category list" where
  \<comment> \<open>\<open>_collect_annotations_for_split\<close>\<close>
  "collect_annotations_for_split L fs split category_name =
     (case collect_loop L fs (sort (remdups (image_stems fs split))) ([], [], 1, 1) of
        Inl e \<Rightarrow> Inl e
      | Inr (images, anns, image_id_counter, ann_id_counter) \<Rightarrow>
          Inr (images, anns,
               [\<lparr>cat_id = 1, cat_name = singular category_name, supercategory = ''plant''\<rparr>]))"

section \<open>Converter: merging the categories\<close>

fun enumerate_from :: "int \<Rightarrow> 'b list \<Rightarrow> (int \<times> 'b) list" where
  \<comment> \<open>\<open>enumerate(xs, start=n)\<close>\<close>
  "enumerate_from n [] = []"
| "enumerate_from n (v # vs) = (n, v) # enumerate_from (n + 1) vs"

definition merge_categories :: "string list \<Rightarrow> category list" where
  "merge_categories category_names =
     map (\<lambda>(idx, c). \<lparr>cat_id = idx, cat_name = singular c, supercategory = ''plant''\<rparr>)
       (enumerate_from 1 category_names)"

definition category_to_cat :: "string list \<Rightarrow> (string \<rightharpoonup> int)" where
  \<comment> \<open>the dict filled by \<open>category_to_cat[category] = idx\<close> in the first loop\<close>
  "category_to_cat category_names =
     fold (\<lambda>(idx, c) d. d(c \<mapsto> idx)) (enumerate_from 1 category_names) Map.empty"

fun remap_images ::
  "image list \<Rightarrow> int \<Rightarrow> (int \<rightharpoonup> int) \<Rightarrow> image list \<times> int \<times> (int \<rightharpoonup> int)" where
  \<comment> \<open>\<open>for img in img_list\<close>: the images appended, \<open>next_image_id\<close> and \<open>id_map\<close>\<close>
  "remap_images [] next_image_id id_map = ([], next_image_id, id_map)"
| "remap_images (img # imgs) next_image_id id_map =
     (let (out, n, m) = remap_images imgs (next_image_id + 1) (id_map(img_id img \<mapsto> next_image_id))
      in (img\<lparr>img_id := next_image_id\<rparr> # out, n, m))"

fun remap_anns ::
  "'a annotation list \<Rightarrow> int \<Rightarrow> (int \<rightharpoonup> int) \<Rightarrow> (string \<rightharpoonup> int) \<Rightarrow> string
   \<Rightarrow> py_error + 'a annotation list \<times> int" where
  \<comment> \<open>\<open>for ann in ann_list\<close>: the annotations appended and \<open>next_ann_id\<close>, or the
      \<open>KeyError\<close> of a dict lookup\<close>
  "remap_anns [] next_ann_id id_map c2c category = Inr ([], next_ann_id)"
| "remap_anns (ann # anns) next_ann_id id_map c2c category =
     (case id_map (image_id ann) of
        None \<Rightarrow> Inl KeyError
      | Some new_image_id \<Rightarrow>
          (case c2c category of
             None \<Rightarrow> Inl KeyError
           | Some cid \<Rightarrow>
               (case remap_anns anns (next_ann_id + 1) id_map c2c category of
                  Inl e \<Rightarrow> Inl e
                | Inr (out, n) \<Rightarrow>
                    Inr (ann\<lparr>ann_id := next_ann_id, image_id := new_image_id, category_id := cid\<rparr>
                         # out, n))))"

type_synonym 'a coco_lists = "image list \<times> 'a annotation list \<times> category list"

fun merge_loop ::
  "('a coco_lists \<times> string) list \<Rightarrow> (string \<rightharpoonup> int) \<Rightarrow> int \<Rightarrow> int
   \<Rightarrow> py_error + image list \<times> 'a annotation list" where
  \<comment> \<open>the loop over \<open>zip(per_category, category_names)\<close>, from \<open>next_image_id\<close> and
      \<open>next_ann_id\<close>: the images and annotations appended\<close>
  "merge_loop [] c2c next_image_id next_ann_id = Inr ([], [])"
| "merge_loop (((img_list, ann_list, cats), category) # rest) c2c next_image_id next_ann_id =
     (let (imgs, n_img, id_map) = remap_images img_list next_image_id Map.empty
      in case remap_anns ann_list next_ann_id id_map c2c category of
           Inl e \<Rightarrow> Inl e
         | Inr (anns, n_ann) \<Rightarrow>
             (case merge_loop rest c2c n_img n_ann of
                Inl e \<Rightarrow> Inl e
              | Inr (imgs', anns') \<Rightarrow> Inr (imgs @ imgs', anns @ anns')))"

definition merge_coco_splits :: "'a coco_lists list \<Rightarrow> string list \<Rightarrow> py_error + 'a coco_lists" where
  \<comment> \<open>\<open>_merge_coco_splits\<close>\<close>
  "merge_coco_splits per_category category_names =
     (case merge_loop (zip per_category category_names) (category_to_cat category_names) 1 1 of
        Inl e \<Rightarrow> Inl e
      | Inr (images, anns) \<Rightarrow> Inr (images, anns, merge_categories category_names))"

section \<open>Notions used to state the properties\<close>

definition plain_field :: "string \<Rightarrow> bool" where
  \<comment> \<open>a text that the csv module writes and reads back as one unquoted field: not empty,
      within the field size limit, not starting with a quote, free of commas and line ends\<close>
  "plain_field t \<longleftrightarrow>
     t \<noteq> [] \<and> length t \<le> field_limit \<and> hd t \<noteq> CHR 0x22
     \<and> (\<forall>c\<in>set t. c \<noteq> CHR '','' \<and> c \<noteq> NL \<and> c \<noteq> CR)"

fun join_comma :: "string list \<Rightarrow> string" where
  \<comment> \<open>\<open>",".join(fs)\<close>\<close>
  "join_comma [] = []"
| "join_comma [f] = f"
| "join_comma (f # g # fs) = f @ CHR '','' # join_comma (g # fs)"

definition rows_text :: "string list list \<Rightarrow> string" where
  \<comment> \<open>the text of a file with one comma-separated line per row\<close>
  "rows_text rows = concat (map (\<lambda>fs. join_comma fs @ [NL]) rows)"











section \<open>A category directory for evaluation\<close>

definition demo_fs :: cat_fs where
  "demo_fs =
     \<lparr>fs_images = [''b.png'', ''a.jpg'', ''notes.txt'', ''c.JPG''],
      fs_exists = (\<lambda>p. p \<in> set [''b.png'', ''a.jpg'', ''notes.txt'', ''c.JPG'']),
      fs_image_size = (\<lambda>p. if p \<in> set [''b.png'', ''a.jpg'', ''c.JPG''] then Some (640, 480) else None),
      fs_rel_name = (\<lambda>p. Some (''oranges/images/'' @ p)),
      fs_csv = (\<lambda>p. if p = ''a.csv''
                      then Some (rows_text [[''x'', ''y'', ''width'', ''height''], [''1'', ''2'', ''3'', ''4'']])
                      else None),
      fs_split = (\<lambda>p. if p = ''train.txt'' then Some [''c'', '' zzz'', ''a '']
                        else if p = ''val.txt'' then Some ['' '', '''']
                        else None)\<rparr>"

section \<open>Properties of the string functions\<close>

lemma startswith_iff: "startswith s p \<longleftrightarrow> (\<exists>r. s = p @ r)"
  by (induction s p rule: startswith.induct) auto


section \<open>Properties of the Split Fixer\<close>




lemma map_lines_eq:
  "map_lines m ls (mapped, unmapped) =
     (mapped @ List.map_filter (resolve_line m) ls,
      unmapped @ filter (\<lambda>l. resolve_line m l = None) ls)"
  by (induction ls arbitrary: mapped unmapped) (auto simp: List.map_filter_simps split: option.splits)

lemma set_map_filter_resolve:
  "set (List.map_filter f ls) = {v. \<exists>l\<in>set ls. f l = Some v}"
  by (induction ls) (auto simp: List.map_filter_simps split: option.splits)

lemma split_output_eq:
  "split_output m raw = sort (remdups (List.map_filter (resolve_line m) (read_lines raw)))"
  by (simp add: split_output_def map_lines_eq)

lemma sets_dir_fix_split_file:
  "sets_dir (fix_split_file m f raw st) = (sets_dir st)(f \<mapsto> write_lines (split_output m raw))"
  by (simp add: fix_split_file_def Let_def)

lemma sets_dir_fix_splits_loop:
  "distinct fs \<Longrightarrow>
   sets_dir (fix_splits_loop fs m all_dir st) f =
     (if f \<in> set fs
      then (case all_dir f of
              None \<Rightarrow> sets_dir st f
            | Some raw \<Rightarrow> Some (write_lines (split_output m raw)))
      else sets_dir st f)"
proof (induction fs arbitrary: st)
  case Nil
  then show ?case by simp
next
  case (Cons g fs)
  then have d: "distinct fs" and g: "g \<notin> set fs" by auto
  show ?case
  proof (cases "all_dir g")
    case None
    with Cons.IH [OF d, of st] g show ?thesis by (auto split: option.splits)
  next
    case (Some raw)
    with Cons.IH [OF d, of "fix_split_file m g raw st"] g show ?thesis
      by (auto simp: sets_dir_fix_split_file split: option.splits)
  qed
qed

text \<open>
  C6, as stated, fails in its last part: with the mapping \<open>{x: y}\<close> and the lines
  \<open>x\<close>, \<open>y\<close>, the line \<open>y\<close> is resolved by no strategy, and yet \<open>y\<close> is a line of
  the output file, as the canonical stem of the line \<open>x\<close>.
\<close>

theorem unresolved_line_in_output_counterexample:
  "resolve_line [(''x'', ''y'')] ''y'' = None
   \<and> sets_dir (fix_splits [(''x'', ''y'')] (map_of [(''train.txt'', [''x'', ''y''])]) (map_of []))
        ''train.txt'' = Some (write_lines [''y''])"
  by code_simp

text \<open>
  C6, amended.  For each of the split files \<open>train.txt\<close>, \<open>val.txt\<close>, \<open>test.txt\<close>
  present in the shared directory, the file of that name in \<open>sets/\<close> is overwritten with
  the canonical stems of the resolved lines, deduplicated and sorted, one per line; every
  other file of \<open>sets/\<close> is left as it was.  Every line of an output file is the canonical
  stem of some resolved input line: an unresolved line adds nothing to it.
\<close>

theorem fix_splits_output:
  "sets_dir (fix_splits m all_dir sets) f =
     (if f \<in> {''train.txt'', ''val.txt'', ''test.txt''}
      then (case all_dir f of
              None \<Rightarrow> sets f
            | Some raw \<Rightarrow> Some (write_lines (split_output m raw)))
      else sets f)
   \<and> sorted (split_output m raw) \<and> distinct (split_output m raw)
   \<and> set (split_output m raw) = {v. \<exists>l\<in>set (read_lines raw). resolve_line m l = Some v}"
proof -
  have 1: "sets_dir (fix_splits m all_dir sets) f =
     (if f \<in> {''train.txt'', ''val.txt'', ''test.txt''}
      then (case all_dir f of
              None \<Rightarrow> sets f
            | Some raw \<Rightarrow> Some (write_lines (split_output m raw)))
      else sets f)"
    unfolding fix_splits_def by (subst sets_dir_fix_splits_loop) (simp_all split: option.splits)
  have 2: "sorted (split_output m raw)" "distinct (split_output m raw)"
    by (simp_all add: split_output_eq)
  have 3: "set (split_output m raw) = {v. \<exists>l\<in>set (read_lines raw). resolve_line m l = Some v}"
    by (simp add: split_output_eq set_map_filter_resolve)
  from 1 2 3 show ?thesis by blast
qed

theorem fix_splits_output_witness:
  "sets_dir (fix_splits [(''imgA.png'', ''img_001''), (''b'', ''img_000'')]
       (map_of [(''val.txt'', [''imgA.png '', ''zzz'', ''B.jpg'', ''imgA'']), (''other.txt'', [''b''])])
       (map_of [(''val.txt'', ''old''), (''all.txt'', ''keep'')])) ''val.txt''
     = Some (write_lines [''img_000'', ''img_001''])
   \<and> set (split_output [(''imgA.png'', ''img_001''), (''b'', ''img_000'')]
            [''imgA.png '', ''zzz'', ''B.jpg'', ''imgA''])
       = {''img_000'', ''img_001''}
   \<and> resolve_line [(''imgA.png'', ''img_001''), (''b'', ''img_000'')] ''zzz'' = None"
proof -
  have r: "read_lines [''imgA.png '', ''zzz'', ''B.jpg'', ''imgA'']
             = [''imgA.png'', ''zzz'', ''B.jpg'', ''imgA'']"
    by code_simp
  have o: "split_output [(''imgA.png'', ''img_001''), (''b'', ''img_000'')]
             [''imgA.png '', ''zzz'', ''B.jpg'', ''imgA''] = [''img_000'', ''img_001'']"
    by code_simp
  have z: "resolve_line [(''imgA.png'', ''img_001''), (''b'', ''img_000'')] ''zzz'' = None"
    by code_simp
  from fix_splits_output [of "[(''imgA.png'', ''img_001''), (''b'', ''img_000'')]"
      "map_of [(''val.txt'', [''imgA.png '', ''zzz'', ''B.jpg'', ''imgA'']), (''other.txt'', [''b''])]"
      "map_of [(''val.txt'', ''old''), (''all.txt'', ''keep'')]" "''val.txt''"
      "[''imgA.png '', ''zzz'', ''B.jpg'', ''imgA'']"]
  show ?thesis by (simp add: o z)
qed

section \<open>Properties of the CSV reader and parser\<close>

lemma process_chars_append:
  "process_chars p (a @ b) =
     (case process_chars p a of Inl e \<Rightarrow> Inl e | Inr p' \<Rightarrow> process_chars p' b)"
  by (induction a arbitrary: p) (auto split: sum.splits)

lemma in_field_chars:
  "\<forall>c\<in>set cs. c \<noteq> CHR '','' \<and> c \<noteq> NL \<and> c \<noteq> CR \<Longrightarrow>
   length f + length cs \<le> field_limit \<Longrightarrow>
   process_chars \<lparr>state = IN_FIELD, field = f, row_fields = rs\<rparr> cs
     = Inr \<lparr>state = IN_FIELD, field = f @ cs, row_fields = rs\<rparr>"
proof (induction cs arbitrary: f)
  case Nil
  then show ?case by simp
next
  case (Cons c cs)
  from Cons.prems
  have step: "parse_process_char \<lparr>state = IN_FIELD, field = f, row_fields = rs\<rparr> (Some c)
                = Inr \<lparr>state = IN_FIELD, field = f @ [c], row_fields = rs\<rparr>"
    by (simp add: parse_process_char_def is_eol_def parse_add_char_def)
  have "process_chars \<lparr>state = IN_FIELD, field = f @ [c], row_fields = rs\<rparr> cs
          = Inr \<lparr>state = IN_FIELD, field = (f @ [c]) @ cs, row_fields = rs\<rparr>"
    using Cons.prems by (intro Cons.IH) auto
  with step show ?case by simp
qed

lemma start_plain_field:
  assumes "plain_field t" "st = START_RECORD \<or> st = START_FIELD"
  shows "process_chars \<lparr>state = st, field = [], row_fields = rs\<rparr> t
           = Inr \<lparr>state = IN_FIELD, field = t, row_fields = rs\<rparr>"
proof -
  from assms(1) obtain c cs where t: "t = c # cs" by (cases t) (auto simp: plain_field_def)
  from assms t have c: "c \<noteq> CHR 0x22" "c \<noteq> CHR '',''" "c \<noteq> NL" "c \<noteq> CR"
    and cs: "\<forall>d\<in>set cs. d \<noteq> CHR '','' \<and> d \<noteq> NL \<and> d \<noteq> CR"
    and len: "Suc (length cs) \<le> field_limit"
    by (auto simp: plain_field_def)
  from len have pos: "0 < field_limit" by simp
  have step: "parse_process_char \<lparr>state = st, field = [], row_fields = rs\<rparr> (Some c)
                = Inr \<lparr>state = IN_FIELD, field = [c], row_fields = rs\<rparr>"
    using assms(2) c pos
    by (auto simp: parse_process_char_def start_field_def is_eol_def parse_add_char_def)
  have "process_chars \<lparr>state = IN_FIELD, field = [c], row_fields = rs\<rparr> cs
          = Inr \<lparr>state = IN_FIELD, field = [c] @ cs, row_fields = rs\<rparr>"
    using cs len by (intro in_field_chars) auto
  with step t show ?thesis by simp
qed

lemma comma_in_field:
  "parse_process_char \<lparr>state = IN_FIELD, field = f, row_fields = rs\<rparr> (Some (CHR '',''))
     = Inr \<lparr>state = START_FIELD, field = [], row_fields = rs @ [f]\<rparr>"
  by (simp add: parse_process_char_def is_eol_def parse_save_field_def)

lemma join_comma_chars:
  assumes "fs \<noteq> []" "\<forall>f\<in>set fs. plain_field f" "st = START_RECORD \<or> st = START_FIELD"
  shows "process_chars \<lparr>state = st, field = [], row_fields = rs\<rparr> (join_comma fs)
           = Inr \<lparr>state = IN_FIELD, field = last fs, row_fields = rs @ butlast fs\<rparr>"
  using assms
proof (induction fs arbitrary: st rs rule: join_comma.induct)
  case 1
  then show ?case by simp
next
  case (2 f)
  then show ?case by (simp add: start_plain_field)
next
  case (3 f g fs)
  have a: "process_chars \<lparr>state = st, field = [], row_fields = rs\<rparr> f
             = Inr \<lparr>state = IN_FIELD, field = f, row_fields = rs\<rparr>"
    using 3 by (intro start_plain_field) auto
  have c: "process_chars \<lparr>state = START_FIELD, field = [], row_fields = rs @ [f]\<rparr> (join_comma (g # fs))
             = Inr \<lparr>state = IN_FIELD, field = last (g # fs), row_fields = (rs @ [f]) @ butlast (g # fs)\<rparr>"
    using 3 by (intro "3.IH") auto
  show ?case
    using c by (simp add: process_chars_append a comma_in_field)
qed

lemma process_line_plain_row:
  assumes "fs \<noteq> []" "\<forall>f\<in>set fs. plain_field f"
  shows "process_line parse_reset (join_comma fs @ [NL]) =
           Inr \<lparr>state = START_RECORD, field = [], row_fields = fs\<rparr>"
proof -
  have a: "process_chars \<lparr>state = START_RECORD, field = [], row_fields = []\<rparr> (join_comma fs)
             = Inr \<lparr>state = IN_FIELD, field = last fs, row_fields = [] @ butlast fs\<rparr>"
    using assms by (intro join_comma_chars) auto
  show ?thesis
    using assms(1) a
    by (simp add: process_line_def process_chars_append parse_reset_def parse_process_char_def
        is_eol_def after_eol_def parse_save_field_def)
qed

lemma join_comma_no_eol:
  "\<forall>f\<in>set fs. plain_field f \<Longrightarrow> NL \<notin> set (join_comma fs) \<and> CR \<notin> set (join_comma fs)"
  by (induction fs rule: join_comma.induct) (auto simp: plain_field_def)

lemma lines_keepends_line:
  "NL \<notin> set l \<Longrightarrow> CR \<notin> set l \<Longrightarrow>
   lines_keepends (l @ NL # text) cur = (cur @ l @ [NL]) # lines_keepends text []"
  by (induction l arbitrary: cur) auto

lemma lines_keepends_rows:
  "\<forall>fs\<in>set rows. \<forall>f\<in>set fs. plain_field f \<Longrightarrow>
   lines_keepends (rows_text rows) [] = map (\<lambda>fs. join_comma fs @ [NL]) rows"
proof (induction rows)
  case Nil
  then show ?case by (simp add: rows_text_def)
next
  case (Cons fs rows)
  then have "NL \<notin> set (join_comma fs)" "CR \<notin> set (join_comma fs)"
    using join_comma_no_eol [of fs] by auto
  then have "lines_keepends (join_comma fs @ NL # rows_text rows) []
               = ([] @ join_comma fs @ [NL]) # lines_keepends (rows_text rows) []"
    by (rule lines_keepends_line)
  with Cons show ?case by (simp add: rows_text_def)
qed

lemma read_rows_plain:
  "\<forall>fs\<in>set rows. fs \<noteq> [] \<and> (\<forall>f\<in>set fs. plain_field f) \<Longrightarrow>
   read_rows (map (\<lambda>fs. join_comma fs @ [NL]) rows) parse_reset = (rows, None)"
proof (induction rows)
  case Nil
  then show ?case by (simp add: parse_reset_def)
next
  case (Cons fs rows)
  then have "process_line parse_reset (join_comma fs @ [NL]) =
           Inr \<lparr>state = START_RECORD, field = [], row_fields = fs\<rparr>"
    by (intro process_line_plain_row) auto
  with Cons show ?case by simp
qed

lemma csv_reader_plain_rows:
  "\<forall>fs\<in>set rows. fs \<noteq> [] \<and> (\<forall>f\<in>set fs. plain_field f) \<Longrightarrow>
   csv_reader (rows_text rows) = (rows, None)"
  by (simp add: csv_reader_def lines_keepends_rows read_rows_plain)

lemma get_first_parseable:
  "get L row keys =
     (case filter (\<lambda>key. \<exists>v r. map_of row key = Some (Some v) \<and> v \<noteq> [] \<and> py_float L v = Some r) keys of
        [] \<Rightarrow> None
      | key # more_keys \<Rightarrow> py_float L (the (the (map_of row key))))"
  by (induction keys) (auto split: option.splits)

lemma row_box_iff:
  "row_box L row \<noteq> None \<longleftrightarrow>
     get L row [''x'', ''xc'', ''x_center''] \<noteq> None
   \<and> get L row [''y'', ''yc'', ''y_center''] \<noteq> None
   \<and> get L row [''w'', ''width'', ''dx''] \<noteq> None
   \<and> get L row [''h'', ''height'', ''dy''] \<noteq> None"
  by (simp add: row_box_def Let_def)

text \<open>
  C8.  The claim does not hold for a row that has more fields than the header: the
  \<open>DictReader\<close> stores the surplus under the key \<open>None\<close>, lowering the keys raises
  \<open>AttributeError\<close>, and the parse of the file is aborted, although \<open>x\<close>, \<open>y\<close>, \<open>w\<close>
  and \<open>h\<close> of that row are numbers.  The file here has the header \<open>x,y,w,h\<close> and the one
  row \<open>1,2,3,4,5\<close>.
\<close>

theorem parse_csv_boxes_long_row_aborts:
  "parse_csv_boxes L (Some (''x,y,w,h'' @ [NL] @ ''1,2,3,4,5'' @ [NL])) = Inl AttributeError"
proof -
  have p: "\<forall>fs\<in>set [[''x'', ''y'', ''w'', ''h''], [''1'', ''2'', ''3'', ''4'', ''5'']].
             fs \<noteq> [] \<and> (\<forall>f\<in>set fs. plain_field f)"
    by (simp add: plain_field_def field_limit_def)
  have "''x,y,w,h'' @ [NL] @ ''1,2,3,4,5'' @ [NL]
          = rows_text [[''x'', ''y'', ''w'', ''h''], [''1'', ''2'', ''3'', ''4'', ''5'']]"
    by (simp add: rows_text_def)
  with csv_reader_plain_rows [OF p]
  have r: "csv_reader (''x,y,w,h'' @ [NL] @ ''1,2,3,4,5'' @ [NL])
          = ([[''x'', ''y'', ''w'', ''h''], [''1'', ''2'', ''3'', ''4'', ''5'']], None)"
    by simp
  have "parse_rows L [''x'', ''y'', ''w'', ''h''] [[''1'', ''2'', ''3'', ''4'', ''5'']] None
          = Inl AttributeError"
    by (simp add: dict_row_def lower_row_def Let_def)
  then show ?thesis
    by (simp only: parse_csv_boxes_def r option.case prod.case list.case)
qed

section \<open>Properties of the Reorganizer\<close>






















text \<open>
  C1.  The claim does not hold when the annotation JSON of an image is malformed: the
  image and the JSON file are copied and a warning is logged, but no CSV file is written
  for the image, whereas an image without a JSON file gets a header-only CSV.  The source
  directory here holds \<open>a.JPG\<close> and \<open>a.json\<close>, whose text \<open>{\<close> does not load.
\<close>

theorem process_directory_malformed_json_no_csv:
  assumes "json_load L ''{'' = None"
  shows "csv_dir (process_directory L [(''a.JPG'', ''img''), (''a.json'', ''{'')] ''.JPG'' empty_target)
           ''a.csv'' = None
       \<and> images_dir (process_directory L [(''a.JPG'', ''img''), (''a.json'', ''{'')] ''.JPG'' empty_target)
           ''a.JPG'' = Some ''img''
       \<and> json_dir (process_directory L [(''a.JPG'', ''img''), (''a.json'', ''{'')] ''.JPG'' empty_target)
           ''a.json'' = Some ''{''
       \<and> warnings (process_directory L [(''a.JPG'', ''img''), (''a.json'', ''{'')] ''.JPG'' empty_target)
           = [''a.json'']
       \<and> csv_dir (process_directory L [(''a.JPG'', ''img'')] ''.JPG'' empty_target) ''a.csv''
           = Some csv_header"
proof -
  have g: "glob_ext [(''a.JPG'', ''img''), (''a.json'', ''{'')] ''.JPG'' = [(''a.JPG'', ''img'')]"
          "glob_ext [(''a.JPG'', ''img''), (''a.json'', ''{'')] (lower ''.JPG'') = []"
          "glob_ext [(''a.JPG'', ''img'')] ''.JPG'' = [(''a.JPG'', ''img'')]"
          "glob_ext [(''a.JPG'', ''img'')] (lower ''.JPG'') = []"
    by code_simp+
  have n: "name_stem ''a.JPG'' = ''a''"
    by code_simp
  show ?thesis
    using assms
    by (simp add: process_directory_def g process_image_def n Let_def empty_target_def)
qed

theorem process_directory_malformed_json_no_csv_witness:
  "json_load int_lib ''{'' = None
   \<and> csv_dir (process_directory int_lib [(''a.JPG'', ''img''), (''a.json'', ''{'')] ''.JPG'' empty_target)
       ''a.csv'' = None
   \<and> warnings (process_directory int_lib [(''a.JPG'', ''img''), (''a.json'', ''{'')] ''.JPG'' empty_target)
       = [''a.json'']"
proof -
  have h: "json_load int_lib ''{'' = None"
    by (simp add: int_lib_def)
  from process_directory_malformed_json_no_csv [OF h] h show ?thesis
    by simp
qed

section \<open>Properties of the Converter\<close>






lemma endswith_iff: "endswith s suf \<longleftrightarrow> (\<exists>p. s = p @ suf)"
proof -
  have "(\<exists>r. rev s = rev suf @ r) \<longleftrightarrow> (\<exists>p. s = p @ suf)"
  proof
    assume "\<exists>r. rev s = rev suf @ r"
    then obtain r where "rev s = rev suf @ r" by blast
    then have "rev (rev s) = rev (rev suf @ r)" by simp
    then have "s = rev r @ suf" by simp
    then show "\<exists>p. s = p @ suf" by blast
  next
    assume "\<exists>p. s = p @ suf"
    then obtain p where "s = p @ suf" by blast
    then have "rev s = rev suf @ rev p" by simp
    then show "\<exists>r. rev s = rev suf @ r" by blast
  qed
  then show ?thesis by (simp add: endswith_def startswith_iff)
qed


lemma demo_parse_a:
  "parse_csv_boxes int_lib (Some (rows_text [[''x'', ''y'', ''width'', ''height''], [''1'', ''2'', ''3'', ''4'']]))
     = Inr [\<lparr>box_x = 1, box_y = 2, box_width = 3, box_height = 4\<rparr>]"
proof -
  have p: "\<forall>fs\<in>set [[''x'', ''y'', ''width'', ''height''], [''1'', ''2'', ''3'', ''4'']].
             fs \<noteq> [] \<and> (\<forall>f\<in>set fs. plain_field f)"
    by (simp add: plain_field_def field_limit_def)
  have f: "py_float int_lib ''1'' = Some 1" "py_float int_lib ''2'' = Some 2"
          "py_float int_lib ''3'' = Some 3" "py_float int_lib ''4'' = Some 4"
    by (simp_all add: int_lib_def parse_int_def digit_val_def)
  have l: "lower_row (dict_row [''x'', ''y'', ''width'', ''height''] [''1'', ''2'', ''3'', ''4''])
             = Inr [(''x'', Some ''1''), (''y'', Some ''2''), (''width'', Some ''3''), (''height'', Some ''4'')]"
    by (simp add: lower_row_def dict_row_def dict_of_def lower_def lower_char_def)
  have r: "row_box int_lib [(''x'', Some ''1''), (''y'', Some ''2''), (''width'', Some ''3''), (''height'', Some ''4'')]
             = Some \<lparr>box_x = 1, box_y = 2, box_width = 3, box_height = 4\<rparr>"
    by (simp add: row_box_def f)
  show ?thesis
    by (simp add: parse_csv_boxes_def csv_reader_plain_rows [OF p] l r)
qed

lemma demo_stems:
  "sort (remdups (image_stems demo_fs ''train'')) = [''a'', ''c'', ''zzz'']"
  "sort (remdups (image_stems demo_fs ''val'')) = [''a'', ''b'', ''c'']"
  "sort (remdups (image_stems demo_fs ''test'')) = [''a'', ''b'', ''c'']"
  by code_simp+

lemma demo_find:
  "find_image demo_fs ''a'' = Some ''a.jpg''" "find_image demo_fs ''b'' = Some ''b.png''"
  "find_image demo_fs ''c'' = Some ''c.JPG''" "find_image demo_fs ''zzz'' = None"
  by (simp_all add: find_image_def demo_fs_def)

lemma demo_collect_train:
  "collect_annotations_for_split int_lib demo_fs ''train'' ''oranges'' =
     Inr ([\<lparr>img_id = 1, file_name = ''oranges/images/a.jpg'', img_width = 640, img_height = 480\<rparr>,
           \<lparr>img_id = 2, file_name = ''oranges/images/c.JPG'', img_width = 640, img_height = 480\<rparr>],
          [\<lparr>ann_id = 1, image_id = 1, category_id = 1, bbox = [1, 2, 3, 4], area = 12, iscrowd = 0\<rparr>],
          [\<lparr>cat_id = 1, cat_name = ''orange'', supercategory = ''plant''\<rparr>])"
proof -
  have c: "fs_csv demo_fs ''a.csv'' = Some (rows_text [[''x'', ''y'', ''width'', ''height''], [''1'', ''2'', ''3'', ''4'']])"
          "fs_csv demo_fs ''c.csv'' = None"
    by (simp_all add: demo_fs_def)
  have s: "fs_image_size demo_fs ''a.jpg'' = Some (640, 480)" "fs_image_size demo_fs ''c.JPG'' = Some (640, 480)"
          "fs_rel_name demo_fs ''a.jpg'' = Some ''oranges/images/a.jpg''"
          "fs_rel_name demo_fs ''c.JPG'' = Some ''oranges/images/c.JPG''"
    by (simp_all add: demo_fs_def)
  have n: "parse_csv_boxes int_lib None = Inr []" by (simp add: parse_csv_boxes_def)
  have g: "singular ''oranges'' = ''orange''" by code_simp
  have m: "fmul int_lib 3 4 = 12" by (simp add: int_lib_def)
  show ?thesis
    by (simp add: collect_annotations_for_split_def demo_stems demo_find c s n g m demo_parse_a make_ann_def)
qed





text \<open>
  C9.  The categories list of a single-category export has exactly one entry, with id 1,
  whose name is the category name without one trailing \<open>s\<close>, and the name itself when
  it does not end with \<open>s\<close>; \<open>backgrounds\<close> gives \<open>background\<close> and \<open>oranges\<close> gives
  \<open>orange\<close>.
\<close>

theorem single_category_singular:
  assumes "collect_annotations_for_split L fs split category_name = Inr (images, anns, cats)"
  shows "cats = [\<lparr>cat_id = 1, cat_name = singular category_name, supercategory = ''plant''\<rparr>]
       \<and> (\<forall>stem. category_name = stem @ ''s'' \<longrightarrow> singular category_name = stem)
       \<and> ((\<nexists>stem. category_name = stem @ ''s'') \<longrightarrow> singular category_name = category_name)
       \<and> singular ''backgrounds'' = ''background'' \<and> singular ''oranges'' = ''orange''"
proof -
  from assms have 1: "cats = [\<lparr>cat_id = 1, cat_name = singular category_name, supercategory = ''plant''\<rparr>]"
    by (auto simp: collect_annotations_for_split_def split: sum.splits)
  have 2: "\<forall>stem. category_name = stem @ ''s'' \<longrightarrow> singular category_name = stem"
    by (auto simp: singular_def endswith_iff)
  have 3: "(\<nexists>stem. category_name = stem @ ''s'') \<longrightarrow> singular category_name = category_name"
    by (auto simp: singular_def endswith_iff)
  have 4: "singular ''backgrounds'' = ''background''" "singular ''oranges'' = ''orange''"
    by code_simp+
  from 1 2 3 4 show ?thesis by blast
qed

theorem single_category_singular_witness:
  "collect_annotations_for_split int_lib demo_fs ''train'' ''oranges'' =
     Inr ([\<lparr>img_id = 1, file_name = ''oranges/images/a.jpg'', img_width = 640, img_height = 480\<rparr>,
           \<lparr>img_id = 2, file_name = ''oranges/images/c.JPG'', img_width = 640, img_height = 480\<rparr>],
          [\<lparr>ann_id = 1, image_id = 1, category_id = 1, bbox = [1, 2, 3, 4], area = 12, iscrowd = 0\<rparr>],
          [\<lparr>cat_id = 1, cat_name = ''orange'', supercategory = ''plant''\<rparr>])
   \<and> [\<lparr>cat_id = 1, cat_name = ''orange'', supercategory = ''plant''\<rparr>]
       = [\<lparr>cat_id = 1, cat_name = singular ''oranges'', supercategory = ''plant''\<rparr>]
   \<and> singular ''oranges'' = ''orange''"
proof -
  note t = single_category_singular [OF demo_collect_train]
  from t have 1: "[\<lparr>cat_id = 1, cat_name = ''orange'', supercategory = ''plant''\<rparr>]
       = [\<lparr>cat_id = 1, cat_name = singular ''oranges'', supercategory = ''plant''\<rparr>]"
    by (rule conjunct1)
  from t have 2: "singular ''oranges'' = ''orange''"
    by blast
  show ?thesis
    by (intro conjI demo_collect_train 1 2)
qed

section \<open>Properties of the regrouping\<close>





end
